theory Spec2Isabelle
  imports
    Complex_Main
    "HOL-Library.Product_Lexorder"
    "HOL-Library.Option_ord"
    "HOL-Library.Char_ord"
    "HOL-Library.List_Lexorder"
    "HOL-Library.Multiset"
    "HOL-Library.Monad_Syntax"
begin

section \<open>Meshcore heatmap service: data model\<close>

text \<open>
  The service stores ping telemetry in one table (\<^verbatim>\<open>db.py\<close>), validates what it
  ingests with the schemas of \<^verbatim>\<open>models.py\<close>, aggregates the table by coordinate
  pair (\<^verbatim>\<open>api.py\<close>, \<^verbatim>\<open>cli.py\<close>) and turns the aggregated rows into heatmap
  points (\<^verbatim>\<open>heatmap.py\<close>).

  Conventions of the embedding.
  \<^item> A Python \<^verbatim>\<open>float\<close> and an SQL \<^verbatim>\<open>Float\<close> column are exact rationals: sums and
    averages are the mathematical ones, rounding of binary floating point and the
    special values (NaN, infinities) are outside the model.
  \<^item> A \<^verbatim>\<open>datetime\<close> is the number of microseconds since 0001-01-01T00:00:00, the
    least value of Python's type; the greatest is \<open>datetime_max\<close>.
  \<^item> \<^verbatim>\<open>None\<close> and SQL \<^verbatim>\<open>NULL\<close> are \<open>None\<close> of an option type.
  \<^item> An exception, an HTTP error response and a non-zero exit are values of \<open>error\<close>;
    a function that can raise returns \<open>error + 'a\<close>.
  \<^item> The table is the list of its rows in insertion order. The clock, the file system
    and the process settings are arguments.
  \<^item> A local variable or parameter of the source whose name is also a field of one of
    the records below carries a prime (\<open>metric'\<close>, \<open>hardware_model'\<close>).
\<close>

type_synonym datetime = int

datatype error =
    RequestValidationError
  | HTTPException nat string
  | ValidationError
  | ValueError string
  | OverflowError
  | Exit nat string
  | Unmodelled string

subsection \<open>\<^verbatim>\<open>models.py\<close>\<close>

record PingSampleIn =
  origin_node_id :: string
  target_node_id :: string
  timestamp :: "datetime option"
  latitude :: "rat option"
  longitude :: "rat option"
  altitude_m :: "rat option"
  rssi_dbm :: "rat option"
  snr_db :: "rat option"
  round_trip_ms :: "rat option"
  hardware_model :: "string option"
  firmware_version :: "string option"
  antenna_model :: "string option"
  antenna_gain_dbi :: "rat option"
  antenna_polarization :: "string option"
  tx_power_dbm :: "rat option"
  frequency_mhz :: "rat option"
  channel_id :: "string option"
  region :: "string option"

record HeatmapPoint =
  latitude :: rat
  longitude :: rat
  intensity :: rat
  samples :: nat
  latest_seen :: "datetime option"
  antenna_gain_dbi :: "rat option"
  tx_power_dbm :: "rat option"
  hardware_model :: "string option"

record HeatmapResponse =
  metric :: string
  points :: "HeatmapPoint list"
  min_value :: "rat option"
  max_value :: "rat option"

subsection \<open>\<^verbatim>\<open>db.py\<close>: the table \<^verbatim>\<open>ping_samples\<close>\<close>

text \<open>
  The primary key \<^verbatim>\<open>id\<close> is the field \<open>id_col\<close> (\<open>id\<close> is HOL's identity). The two
  node identifiers are \<^verbatim>\<open>nullable=False\<close>; \<^verbatim>\<open>created_at\<close> has a default and every
  insertion path of the repository gives it a value, so it is never \<^verbatim>\<open>NULL\<close>.
\<close>

record PingSample =
  id_col :: nat
  created_at :: datetime
  origin_node_id :: string
  target_node_id :: string
  latitude :: "rat option"
  longitude :: "rat option"
  altitude_m :: "rat option"
  rssi_dbm :: "rat option"
  snr_db :: "rat option"
  round_trip_ms :: "rat option"
  hardware_model :: "string option"
  firmware_version :: "string option"
  antenna_model :: "string option"
  antenna_gain_dbi :: "rat option"
  antenna_polarization :: "string option"
  tx_power_dbm :: "rat option"
  frequency_mhz :: "rat option"
  channel_id :: "string option"
  region :: "string option"

text \<open>
  \<^verbatim>\<open>getattr(PingSample, metric, None)\<close> looks a name up on the ORM class. The class
  body declares the nineteen columns and \<^verbatim>\<open>__tablename__\<close>; every other attribute
  comes from the declarative base or from \<^verbatim>\<open>object\<close>, which are not in this
  repository: \<open>inherited name\<close> says whether \<open>name\<close> is one of those. The columns an
  SQL average is modelled for are the numeric ones.
\<close>

datatype numcol =
    Col_id | Col_latitude | Col_longitude | Col_altitude_m
  | Col_rssi_dbm | Col_snr_db | Col_round_trip_ms
  | Col_antenna_gain_dbi | Col_tx_power_dbm | Col_frequency_mhz

datatype attr = Numeric numcol | NonNumeric

definition numeric_columns :: "(string \<times> numcol) list" where
  "numeric_columns =
     [(''id'', Col_id), (''latitude'', Col_latitude), (''longitude'', Col_longitude),
      (''altitude_m'', Col_altitude_m), (''rssi_dbm'', Col_rssi_dbm), (''snr_db'', Col_snr_db),
      (''round_trip_ms'', Col_round_trip_ms), (''antenna_gain_dbi'', Col_antenna_gain_dbi),
      (''tx_power_dbm'', Col_tx_power_dbm), (''frequency_mhz'', Col_frequency_mhz)]"

definition other_class_attributes :: "string list" where
  "other_class_attributes =
     [''__tablename__'', ''created_at'', ''origin_node_id'', ''target_node_id'',
      ''hardware_model'', ''firmware_version'', ''antenna_model'', ''antenna_polarization'',
      ''channel_id'', ''region'']"

definition PingSample_getattr :: "(string \<Rightarrow> bool) \<Rightarrow> string \<Rightarrow> attr option" where
  "PingSample_getattr inherited name =
     (case map_of numeric_columns name of
        Some c \<Rightarrow> Some (Numeric c)
      | None \<Rightarrow>
          if name \<in> set other_class_attributes \<or> inherited name then Some NonNumeric
          else None)"

fun column_value :: "numcol \<Rightarrow> PingSample \<Rightarrow> rat option" where
  "column_value Col_id s = Some (of_nat (id_col s))"
| "column_value Col_latitude s = PingSample.latitude s"
| "column_value Col_longitude s = PingSample.longitude s"
| "column_value Col_altitude_m s = PingSample.altitude_m s"
| "column_value Col_rssi_dbm s = PingSample.rssi_dbm s"
| "column_value Col_snr_db s = PingSample.snr_db s"
| "column_value Col_round_trip_ms s = PingSample.round_trip_ms s"
| "column_value Col_antenna_gain_dbi s = PingSample.antenna_gain_dbi s"
| "column_value Col_tx_power_dbm s = PingSample.tx_power_dbm s"
| "column_value Col_frequency_mhz s = PingSample.frequency_mhz s"


section \<open>The aggregation query\<close>

subsection \<open>SQL aggregates\<close>

text \<open>
  \<^verbatim>\<open>AVG\<close>, \<^verbatim>\<open>COUNT\<close> and \<^verbatim>\<open>MAX\<close> skip \<^verbatim>\<open>NULL\<close>; \<^verbatim>\<open>AVG\<close> and \<^verbatim>\<open>MAX\<close> of no
  value are \<^verbatim>\<open>NULL\<close>, \<^verbatim>\<open>COUNT\<close> of no value is 0. Strings are compared bytewise
  (SQLite's \<^verbatim>\<open>BINARY\<close> collation), which is the lexicographic order of \<open>string\<close>.
\<close>

fun non_null :: "'a option list \<Rightarrow> 'a list" where
  "non_null [] = []"
| "non_null (None # vs) = non_null vs"
| "non_null (Some v # vs) = v # non_null vs"

definition sql_avg :: "rat option list \<Rightarrow> rat option" where
  "sql_avg vs =
     (let xs = non_null vs
      in if xs = [] then None else Some (sum_list xs / of_nat (length xs)))"

definition sql_count :: "'a option list \<Rightarrow> nat" where
  "sql_count vs = length (non_null vs)"

definition sql_max :: "('a::linorder) option list \<Rightarrow> 'a option" where
  "sql_max vs = (case non_null vs of [] \<Rightarrow> None | x # xs \<Rightarrow> Some (fold max xs x))"

subsection \<open>The statement and its execution\<close>

text \<open>
  The \<^verbatim>\<open>select\<close> of \<^verbatim>\<open>get_heatmap\<close> and \<^verbatim>\<open>export_heatmap\<close> is fixed but for the
  averaged column and the conjuncts of its \<^verbatim>\<open>WHERE\<close> clause, so a statement is that
  column and the list of conjuncts. A result row is the tuple
  (latitude, longitude, metric_value, sample_count, latest_seen, antenna_gain, tx_power,
  hardware_model). SQL leaves the order of the groups open; the model lists them by
  ascending key, as SQLite's sorter does for a \<^verbatim>\<open>GROUP BY\<close>.
\<close>

record query =
  metric_column :: numcol
  whereclause :: "(PingSample \<Rightarrow> bool) list"

type_synonym row =
  "rat option \<times> rat option \<times> rat option \<times> nat option \<times> datetime option
     \<times> rat option \<times> rat option \<times> string option"

definition select_heatmap :: "numcol \<Rightarrow> query" where
  "select_heatmap column =
     \<lparr>metric_column = column,
      whereclause = [\<lambda>s. PingSample.latitude s \<noteq> None, \<lambda>s. PingSample.longitude s \<noteq> None]\<rparr>"

definition where_q :: "query \<Rightarrow> (PingSample \<Rightarrow> bool) \<Rightarrow> query" where
  "where_q q c = q\<lparr>whereclause := whereclause q @ [c]\<rparr>"

definition group_key :: "PingSample \<Rightarrow> rat option \<times> rat option" where
  "group_key s = (PingSample.latitude s, PingSample.longitude s)"

definition aggregate_row :: "numcol \<Rightarrow> rat option \<times> rat option \<Rightarrow> PingSample list \<Rightarrow> row" where
  "aggregate_row column k g =
     (fst k, snd k,
      sql_avg (map (column_value column) g),
      Some (sql_count (map (\<lambda>s. Some (id_col s)) g)),
      sql_max (map (\<lambda>s. Some (created_at s)) g),
      sql_avg (map PingSample.antenna_gain_dbi g),
      sql_avg (map PingSample.tx_power_dbm g),
      sql_max (map PingSample.hardware_model g))"

definition selected_rows :: "query \<Rightarrow> PingSample list \<Rightarrow> PingSample list" where
  "selected_rows q table = filter (\<lambda>s. list_all (\<lambda>c. c s) (whereclause q)) table"

definition execute :: "query \<Rightarrow> PingSample list \<Rightarrow> row list" where
  "execute q table =
     (let selected = selected_rows q table;
          keys = sort (remdups (map group_key selected))
      in map (\<lambda>k. aggregate_row (metric_column q) k (filter (\<lambda>s. group_key s = k) selected)) keys)"

subsection \<open>The lookback window\<close>

text \<open>
  \<^verbatim>\<open>datetime.utcnow() - timedelta(hours=hours)\<close>. A \<^verbatim>\<open>timedelta\<close> holds at most
  999999999 days either way, and a \<^verbatim>\<open>datetime\<close> lies between the years 1 and 9999;
  Python raises \<^verbatim>\<open>OverflowError\<close> outside.
\<close>

definition datetime_max :: datetime where
  "datetime_max = 3652059 * 86400000000 - 1"

definition timedelta_hours :: "int \<Rightarrow> error + int" where
  "timedelta_hours h =
     (if h div 24 < - 999999999 \<or> 999999999 < h div 24 then Inl OverflowError
      else Inr (h * 3600000000))"

definition datetime_sub :: "datetime \<Rightarrow> int \<Rightarrow> error + datetime" where
  "datetime_sub t delta =
     (let r = t - delta in if r < 0 \<or> datetime_max < r then Inl OverflowError else Inr r)"

definition cutoff_of :: "datetime \<Rightarrow> int \<Rightarrow> error + datetime" where
  "cutoff_of now hours =
     (case timedelta_hours hours of Inl e \<Rightarrow> Inl e | Inr delta \<Rightarrow> datetime_sub now delta)"

text \<open>
  Lines 148 to 171 of \<^verbatim>\<open>api.py\<close> and 87 to 112 of \<^verbatim>\<open>cli.py\<close> are the same text: the
  \<^verbatim>\<open>select\<close>, then one \<^verbatim>\<open>where\<close> for each filter that is truthy (an \<^verbatim>\<open>int\<close> that
  is neither \<^verbatim>\<open>None\<close> nor 0, a \<^verbatim>\<open>str\<close> that is neither \<^verbatim>\<open>None\<close> nor empty).
\<close>

definition heatmap_query ::
  "numcol \<Rightarrow> datetime \<Rightarrow> int option \<Rightarrow> string option \<Rightarrow> string option \<Rightarrow> error + query" where
  "heatmap_query column now hours hardware_model' antenna_model' =
     (let query = select_heatmap column in
      case (case hours of
              None \<Rightarrow> Inr query
            | Some h \<Rightarrow>
                if h = 0 then Inr query
                else (case cutoff_of now h of
                        Inl e \<Rightarrow> Inl e
                      | Inr cutoff \<Rightarrow> Inr (where_q query (\<lambda>s. cutoff \<le> created_at s)))) of
        Inl e \<Rightarrow> Inl e
      | Inr query \<Rightarrow>
          let query = (case hardware_model' of
                         None \<Rightarrow> query
                       | Some m \<Rightarrow>
                           if m = [] then query
                           else where_q query (\<lambda>s. PingSample.hardware_model s = Some m));
              query = (case antenna_model' of
                         None \<Rightarrow> query
                       | Some a \<Rightarrow>
                           if a = [] then query
                           else where_q query (\<lambda>s. PingSample.antenna_model s = Some a))
          in Inr query)"

section \<open>\<^verbatim>\<open>heatmap.py\<close>: rows to points\<close>

fun build_heatmap_points :: "row list \<Rightarrow> string \<Rightarrow> HeatmapPoint list" where
  "build_heatmap_points [] metric' = []"
| "build_heatmap_points
     ((latitude', longitude', metric_value, sample_count, latest_seen', antenna_gain, tx_power,
       hardware_model') # records) metric' =
     (case (latitude', longitude', metric_value) of
        (Some la, Some lo, Some v) \<Rightarrow>
          \<lparr>HeatmapPoint.latitude = la,
           HeatmapPoint.longitude = lo,
           intensity = v,
           samples = (case sample_count of None \<Rightarrow> 1 | Some c \<Rightarrow> if c = 0 then 1 else c),
           latest_seen = latest_seen',
           HeatmapPoint.antenna_gain_dbi = antenna_gain,
           HeatmapPoint.tx_power_dbm = tx_power,
           HeatmapPoint.hardware_model = hardware_model'\<rparr>
          # build_heatmap_points records metric'
      | _ \<Rightarrow> build_heatmap_points records metric')"

section \<open>\<^verbatim>\<open>api.py\<close>: the JSON heatmap\<close>

text \<open>
  Python's \<^verbatim>\<open>min\<close> and \<^verbatim>\<open>max\<close> of an iterable keep the first extreme element and
  raise \<^verbatim>\<open>ValueError\<close> on an empty one.
\<close>

fun py_min :: "rat list \<Rightarrow> error + rat" where
  "py_min [] = Inl (ValueError ''min() arg is an empty sequence'')"
| "py_min (x # xs) = Inr (fold (\<lambda>y m. if y < m then y else m) xs x)"

fun py_max :: "rat list \<Rightarrow> error + rat" where
  "py_max [] = Inl (ValueError ''max() arg is an empty sequence'')"
| "py_max (x # xs) = Inr (fold (\<lambda>y m. if m < y then y else m) xs x)"

definition supported_metrics :: "string list" where
  "supported_metrics = [''rssi_dbm'', ''snr_db'', ''round_trip_ms'']"

text \<open>
  The body of \<^verbatim>\<open>get_heatmap\<close>, entered once FastAPI has validated the query
  parameters. A metric that names a class attribute other than a numeric column never
  comes in over HTTP; then the model stops with \<open>Unmodelled\<close>, since what SQLAlchemy and
  SQLite make of such an average is not in this repository.
\<close>

definition get_heatmap_body ::
  "(string \<Rightarrow> bool) \<Rightarrow> datetime \<Rightarrow> PingSample list \<Rightarrow> string \<Rightarrow> int option \<Rightarrow> string option
     \<Rightarrow> string option \<Rightarrow> error + HeatmapResponse" where
  "get_heatmap_body inherited now table metric' hours hardware_model' antenna_model' =
     (case PingSample_getattr inherited metric' of
        None \<Rightarrow> Inl (HTTPException 400 ''Unsupported metric.'')
      | Some NonNumeric \<Rightarrow> Inl (Unmodelled metric')
      | Some (Numeric column) \<Rightarrow>
          (case heatmap_query column now hours hardware_model' antenna_model' of
             Inl e \<Rightarrow> Inl e
           | Inr query \<Rightarrow>
               let results = execute query table;
                   points' = build_heatmap_points results metric'
               in if points' = [] then
                    Inr \<lparr>metric = metric', points = [], min_value = None, max_value = None\<rparr>
                  else
                    (case py_min (map intensity points') of
                       Inl e \<Rightarrow> Inl e
                     | Inr min_value' \<Rightarrow>
                         (case py_max (map intensity points') of
                            Inl e \<Rightarrow> Inl e
                          | Inr max_value' \<Rightarrow>
                              Inr \<lparr>metric = metric', points = points',
                                   min_value = Some min_value', max_value = Some max_value'\<rparr>))))"

text \<open>
  The endpoint: \<^verbatim>\<open>metric\<close> defaults to \<^verbatim>\<open>rssi_dbm\<close> and must match
  \<^verbatim>\<open>^(rssi_dbm|snr_db|round_trip_ms)$\<close>; \<^verbatim>\<open>hours\<close>, when given, must satisfy
  \<^verbatim>\<open>ge=1, le=168\<close>. FastAPI answers 422 otherwise and does not call the function.
\<close>

definition get_heatmap ::
  "(string \<Rightarrow> bool) \<Rightarrow> datetime \<Rightarrow> PingSample list \<Rightarrow> string option \<Rightarrow> int option \<Rightarrow> string option
     \<Rightarrow> string option \<Rightarrow> error + HeatmapResponse" where
  "get_heatmap inherited now table metric_param hours hardware_model' antenna_model' =
     (let metric' = (case metric_param of None \<Rightarrow> ''rssi_dbm'' | Some m \<Rightarrow> m) in
      if metric' \<notin> set supported_metrics then Inl RequestValidationError
      else if (case hours of None \<Rightarrow> False | Some h \<Rightarrow> h < 1 \<or> 168 < h) then
        Inl RequestValidationError
      else get_heatmap_body inherited now table metric' hours hardware_model' antenna_model')"


section \<open>\<^verbatim>\<open>heatmap.py\<close>: the HTML export\<close>

text \<open>
  Folium is a third-party renderer: the document it saves is modelled by the data the
  code hands to it. A marker's tooltip is the f-string
  \<^verbatim>\<open>"{metric}: {intensity:.1f}\nSamples: {samples}\nAntenna gain: {gain or 'n/a'} dBi"\<close>;
  the model keeps the values it is formatted from, \<open>None\<close> for \<^verbatim>\<open>'n/a'\<close>. A path is the
  list of its components. Failures of the operating system (a file where a directory is
  wanted, a full disk) are outside the model.
\<close>

record Settings =
  map_tile_url :: "string option"
  heatmap_min_opacity :: rat
  heatmap_radius :: int
  heatmap_blur :: int
  heatmap_max_zoom :: int

record CircleMarker =
  marker_location :: "rat \<times> rat"
  tooltip_metric :: string
  tooltip_intensity :: rat
  tooltip_samples :: nat
  tooltip_antenna_gain :: "rat option"

record folium_Map =
  location :: "rat \<times> rat"
  tiles :: string
  zoom_start :: nat
  heat_data :: "(rat \<times> rat \<times> rat) list"
  min_opacity :: rat
  radius :: int
  blur :: int
  max_zoom :: int
  markers :: "CircleMarker list"

type_synonym path = "string list"

record filesystem =
  dirs :: "path set"
  files :: "path \<rightharpoonup> folium_Map"

definition mkdir_parents :: "path \<Rightarrow> filesystem \<Rightarrow> filesystem" where
  "mkdir_parents p fs = fs\<lparr>dirs := dirs fs \<union> set (map (\<lambda>n. take n p) [0..<Suc (length p)])\<rparr>"

definition save :: "folium_Map \<Rightarrow> path \<Rightarrow> filesystem \<Rightarrow> filesystem" where
  "save m p fs = fs\<lparr>files := (files fs)(p \<mapsto> m)\<rparr>"

definition render_heatmap_html ::
  "Settings \<Rightarrow> HeatmapPoint list \<Rightarrow> path \<Rightarrow> string \<Rightarrow> filesystem \<Rightarrow> (error + path) \<times> filesystem" where
  "render_heatmap_html settings points' output_path metric' fs =
     (if points' = [] then (Inl (ValueError ''No heatmap points available to render.''), fs)
      else
        let avg_lat = sum_list (map HeatmapPoint.latitude points') / of_nat (length points');
            avg_lon = sum_list (map HeatmapPoint.longitude points') / of_nat (length points');
            base_map =
              \<lparr>location = (avg_lat, avg_lon),
               tiles = (case map_tile_url settings of
                          None \<Rightarrow> ''OpenStreetMap''
                        | Some u \<Rightarrow> if u = [] then ''OpenStreetMap'' else u),
               zoom_start = 11,
               heat_data =
                 map (\<lambda>p. (HeatmapPoint.latitude p, HeatmapPoint.longitude p, intensity p)) points',
               min_opacity = heatmap_min_opacity settings,
               radius = heatmap_radius settings,
               blur = heatmap_blur settings,
               max_zoom = heatmap_max_zoom settings,
               markers =
                 map (\<lambda>point.
                        \<lparr>marker_location = (HeatmapPoint.latitude point, HeatmapPoint.longitude point),
                         tooltip_metric = metric',
                         tooltip_intensity = intensity point,
                         tooltip_samples = samples point,
                         tooltip_antenna_gain =
                           (case HeatmapPoint.antenna_gain_dbi point of
                              None \<Rightarrow> None
                            | Some g \<Rightarrow> if g = 0 then None else Some g)\<rparr>)
                   points'\<rparr>
        in (Inr output_path, save base_map output_path (mkdir_parents (butlast output_path) fs)))"

section \<open>\<^verbatim>\<open>cli.py\<close>: \<^verbatim>\<open>export-heatmap\<close>\<close>

text \<open>
  Typer hands the options over as they are parsed: \<^verbatim>\<open>--metric\<close> is any string
  (default \<^verbatim>\<open>rssi_dbm\<close>), \<^verbatim>\<open>--hours\<close> any integer. \<^verbatim>\<open>typer.Exit(code=1)\<close> after a
  message on standard error is \<open>Exit 1\<close> with that message; on success the result is the
  path written.
\<close>

definition export_heatmap ::
  "(string \<Rightarrow> bool) \<Rightarrow> Settings \<Rightarrow> datetime \<Rightarrow> PingSample list \<Rightarrow> filesystem \<Rightarrow> path
     \<Rightarrow> string option \<Rightarrow> int option \<Rightarrow> string option \<Rightarrow> string option
     \<Rightarrow> (error + path) \<times> filesystem" where
  "export_heatmap inherited settings now table fs output metric_option hours hardware_model'
       antenna_model' =
     (let metric' = (case metric_option of None \<Rightarrow> ''rssi_dbm'' | Some m \<Rightarrow> m) in
      case PingSample_getattr inherited metric' of
        None \<Rightarrow> (Inl (Exit 1 (''Unsupported metric: '' @ metric')), fs)
      | Some NonNumeric \<Rightarrow> (Inl (Unmodelled metric'), fs)
      | Some (Numeric column) \<Rightarrow>
          (case heatmap_query column now hours hardware_model' antenna_model' of
             Inl e \<Rightarrow> (Inl e, fs)
           | Inr query \<Rightarrow>
               let results = execute query table;
                   points' = build_heatmap_points results metric'
               in if points' = [] then
                    (Inl (Exit 1 ''No data available to render heatmap.''), fs)
                  else render_heatmap_html settings points' output metric' fs))"

section \<open>Ingestion\<close>

subsection \<open>Validation by \<^verbatim>\<open>PingSampleIn\<close>\<close>

text \<open>
  A payload is a JSON object, a finite map from keys to JSON values. Pydantic converts
  each value to the field's type and then checks the field's constraints. The
  conversions are pydantic's, not this repository's: they are the parameter
  \<open>coercions\<close>. What \<^verbatim>\<open>models.py\<close> declares is which fields are required
  (\<^verbatim>\<open>Field(...)\<close>), which are \<^verbatim>\<open>Optional\<close> (absent or \<^verbatim>\<open>null\<close> gives \<^verbatim>\<open>None\<close>), and
  the bounds \<^verbatim>\<open>ge\<close>, \<^verbatim>\<open>le\<close> of latitude and longitude. Keys that name no field are
  ignored.
\<close>

datatype json = JNull | JString string | JNumber rat | JOther

record coercions =
  as_str :: "json \<Rightarrow> string option"
  as_float :: "json \<Rightarrow> rat option"
  as_datetime :: "json \<Rightarrow> datetime option"

definition required :: "(json \<Rightarrow> 'a option) \<Rightarrow> (string \<rightharpoonup> json) \<Rightarrow> string \<Rightarrow> 'a option" where
  "required conv d k = (case d k of None \<Rightarrow> None | Some j \<Rightarrow> conv j)"

definition optional :: "(json \<Rightarrow> 'a option) \<Rightarrow> (string \<rightharpoonup> json) \<Rightarrow> string \<Rightarrow> 'a option option" where
  "optional conv d k =
     (case d k of
        None \<Rightarrow> Some None
      | Some JNull \<Rightarrow> Some None
      | Some j \<Rightarrow> map_option Some (conv j))"

definition ge_le :: "rat \<Rightarrow> rat \<Rightarrow> rat option \<Rightarrow> rat option option" where
  "ge_le lo hi v =
     (case v of
        None \<Rightarrow> Some None
      | Some x \<Rightarrow> if lo \<le> x \<and> x \<le> hi then Some (Some x) else None)"

definition PingSampleIn_fields :: "coercions \<Rightarrow> (string \<rightharpoonup> json) \<Rightarrow> PingSampleIn option" where
  "PingSampleIn_fields P d =
     do {
       origin \<leftarrow> required (as_str P) d ''origin_node_id'';
       target \<leftarrow> required (as_str P) d ''target_node_id'';
       ts \<leftarrow> optional (as_datetime P) d ''timestamp'';
       la \<leftarrow> Option.bind (optional (as_float P) d ''latitude'') (ge_le (- 90) 90);
       lo \<leftarrow> Option.bind (optional (as_float P) d ''longitude'') (ge_le (- 180) 180);
       alt \<leftarrow> optional (as_float P) d ''altitude_m'';
       rssi \<leftarrow> optional (as_float P) d ''rssi_dbm'';
       snr \<leftarrow> optional (as_float P) d ''snr_db'';
       rtt \<leftarrow> optional (as_float P) d ''round_trip_ms'';
       hw \<leftarrow> optional (as_str P) d ''hardware_model'';
       fw \<leftarrow> optional (as_str P) d ''firmware_version'';
       am \<leftarrow> optional (as_str P) d ''antenna_model'';
       gain \<leftarrow> optional (as_float P) d ''antenna_gain_dbi'';
       pol \<leftarrow> optional (as_str P) d ''antenna_polarization'';
       tx \<leftarrow> optional (as_float P) d ''tx_power_dbm'';
       freq \<leftarrow> optional (as_float P) d ''frequency_mhz'';
       ch \<leftarrow> optional (as_str P) d ''channel_id'';
       reg \<leftarrow> optional (as_str P) d ''region'';
       Some \<lparr>PingSampleIn.origin_node_id = origin,
             PingSampleIn.target_node_id = target,
             timestamp = ts,
             PingSampleIn.latitude = la,
             PingSampleIn.longitude = lo,
             PingSampleIn.altitude_m = alt,
             PingSampleIn.rssi_dbm = rssi,
             PingSampleIn.snr_db = snr,
             PingSampleIn.round_trip_ms = rtt,
             PingSampleIn.hardware_model = hw,
             PingSampleIn.firmware_version = fw,
             PingSampleIn.antenna_model = am,
             PingSampleIn.antenna_gain_dbi = gain,
             PingSampleIn.antenna_polarization = pol,
             PingSampleIn.tx_power_dbm = tx,
             PingSampleIn.frequency_mhz = freq,
             PingSampleIn.channel_id = ch,
             PingSampleIn.region = reg\<rparr>
     }"

definition PingSampleIn_validate :: "coercions \<Rightarrow> (string \<rightharpoonup> json) \<Rightarrow> error + PingSampleIn" where
  "PingSampleIn_validate P d =
     (case PingSampleIn_fields P d of None \<Rightarrow> Inl ValidationError | Some sample \<Rightarrow> Inr sample)"

fun validate_all :: "coercions \<Rightarrow> (string \<rightharpoonup> json) list \<Rightarrow> error + PingSampleIn list" where
  "validate_all P [] = Inr []"
| "validate_all P (d # ds) =
     (case PingSampleIn_validate P d of
        Inl e \<Rightarrow> Inl e
      | Inr sample \<Rightarrow>
          (case validate_all P ds of Inl e \<Rightarrow> Inl e | Inr rest \<Rightarrow> Inr (sample # rest)))"

text \<open>
  The conversions of the plain cases, for the examples below: a JSON string for
  \<^verbatim>\<open>str\<close>, a JSON number for \<^verbatim>\<open>float\<close>, and a whole number of seconds since 1970
  (within pydantic's range for seconds) for \<^verbatim>\<open>datetime\<close>. Pydantic accepts more
  (numeric strings, ISO dates, milliseconds); the theorems hold for any conversions.
\<close>

definition unix_epoch :: datetime where
  "unix_epoch = 719162 * 86400000000"

definition json_coercions :: coercions where
  "json_coercions =
     \<lparr>as_str = (\<lambda>j. case j of JString s \<Rightarrow> Some s | _ \<Rightarrow> None),
      as_float = (\<lambda>j. case j of JNumber r \<Rightarrow> Some r | _ \<Rightarrow> None),
      as_datetime =
        (\<lambda>j. case j of
               JNumber r \<Rightarrow>
                 if r = of_int \<lfloor>r\<rfloor> \<and> \<bar>r\<bar> \<le> 20000000000
                 then Some (unix_epoch + \<lfloor>r\<rfloor> * 1000000) else None
             | _ \<Rightarrow> None)\<rparr>"

subsection \<open>The session and the insertions\<close>

text \<open>
  \<^verbatim>\<open>get_session\<close> commits when its body returns and leaves the table as it was when
  the body raises (\<^verbatim>\<open>rollback\<close> on an \<^verbatim>\<open>IntegrityError\<close>, \<^verbatim>\<open>close\<close> without a commit
  on anything else). The body works on the table as the transaction sees it. SQLite
  gives a new row the key one above the greatest in the table.

  The three insertion paths build the row with the same constructor call; only the
  value of \<^verbatim>\<open>created_at\<close> differs, so the row is \<open>PingSample_of\<close> of the key, the
  creation time and the validated sample. The \<^verbatim>\<open>isinstance(timestamp, (int, float))\<close>
  branch of \<^verbatim>\<open>api.py\<close> cannot be taken: a validated \<^verbatim>\<open>timestamp\<close> is a \<^verbatim>\<open>datetime\<close>
  or \<^verbatim>\<open>None\<close>.
\<close>

definition get_session ::
  "(PingSample list \<Rightarrow> (error + 'a) \<times> PingSample list) \<Rightarrow> PingSample list
     \<Rightarrow> (error + 'a) \<times> PingSample list" where
  "get_session body table =
     (case body table of
        (Inr r, table') \<Rightarrow> (Inr r, table')
      | (Inl e, table') \<Rightarrow> (Inl e, table))"

definition next_id :: "PingSample list \<Rightarrow> nat" where
  "next_id table = (if table = [] then 1 else Max (set (map id_col table)) + 1)"

definition PingSample_of :: "nat \<Rightarrow> datetime \<Rightarrow> PingSampleIn \<Rightarrow> PingSample" where
  "PingSample_of i t sample =
     \<lparr>id_col = i,
      created_at = t,
      PingSample.origin_node_id = PingSampleIn.origin_node_id sample,
      PingSample.target_node_id = PingSampleIn.target_node_id sample,
      PingSample.latitude = PingSampleIn.latitude sample,
      PingSample.longitude = PingSampleIn.longitude sample,
      PingSample.altitude_m = PingSampleIn.altitude_m sample,
      PingSample.rssi_dbm = PingSampleIn.rssi_dbm sample,
      PingSample.snr_db = PingSampleIn.snr_db sample,
      PingSample.round_trip_ms = PingSampleIn.round_trip_ms sample,
      PingSample.hardware_model = PingSampleIn.hardware_model sample,
      PingSample.firmware_version = PingSampleIn.firmware_version sample,
      PingSample.antenna_model = PingSampleIn.antenna_model sample,
      PingSample.antenna_gain_dbi = PingSampleIn.antenna_gain_dbi sample,
      PingSample.antenna_polarization = PingSampleIn.antenna_polarization sample,
      PingSample.tx_power_dbm = PingSampleIn.tx_power_dbm sample,
      PingSample.frequency_mhz = PingSampleIn.frequency_mhz sample,
      PingSample.channel_id = PingSampleIn.channel_id sample,
      PingSample.region = PingSampleIn.region sample\<rparr>"

definition utcnow_or :: "datetime option \<Rightarrow> datetime \<Rightarrow> datetime" where
  "utcnow_or timestamp' now = (case timestamp' of None \<Rightarrow> now | Some t \<Rightarrow> t)"

text \<open>
  \<^verbatim>\<open>POST /ping-samples\<close>. FastAPI validates the body (422 when it fails), then the
  function runs inside the session.
\<close>

definition create_ping_sample_body ::
  "PingSampleIn \<Rightarrow> datetime \<Rightarrow> PingSample list \<Rightarrow> (error + PingSample) \<times> PingSample list" where
  "create_ping_sample_body sample now table =
     (let record = PingSample_of (next_id table) (utcnow_or (timestamp sample) now) sample
      in (Inr record, table @ [record]))"

definition create_ping_sample ::
  "coercions \<Rightarrow> datetime \<Rightarrow> (string \<rightharpoonup> json) \<Rightarrow> PingSample list
     \<Rightarrow> (error + PingSample) \<times> PingSample list" where
  "create_ping_sample P now payload table =
     (case PingSampleIn_validate P payload of
        Inl e \<Rightarrow> (Inl RequestValidationError, table)
      | Inr sample \<Rightarrow> get_session (create_ping_sample_body sample now) table)"

text \<open>
  \<^verbatim>\<open>POST /ping-samples/bulk\<close>. The clock is read once for each sample: \<open>clock i\<close> is
  its reading while sample \<open>i\<close> is handled. The rows get consecutive keys at the flush.
\<close>

definition records_of :: "nat \<Rightarrow> (nat \<Rightarrow> datetime) \<Rightarrow> PingSampleIn list \<Rightarrow> PingSample list" where
  "records_of first clock samples' =
     map (\<lambda>(i, sample). PingSample_of (first + i) (utcnow_or (timestamp sample) (clock i)) sample)
       (enumerate 0 samples')"

definition create_ping_samples_body ::
  "PingSampleIn list \<Rightarrow> (nat \<Rightarrow> datetime) \<Rightarrow> PingSample list
     \<Rightarrow> (error + PingSample list) \<times> PingSample list" where
  "create_ping_samples_body samples' clock table =
     (if samples' = [] then (Inl (HTTPException 400 ''No samples provided.''), table)
      else
        let records = records_of (next_id table) clock samples'
        in (Inr records, table @ records))"

definition create_ping_samples ::
  "coercions \<Rightarrow> (nat \<Rightarrow> datetime) \<Rightarrow> (string \<rightharpoonup> json) list \<Rightarrow> PingSample list
     \<Rightarrow> (error + PingSample list) \<times> PingSample list" where
  "create_ping_samples P clock payload table =
     (case validate_all P payload of
        Inl e \<Rightarrow> (Inl RequestValidationError, table)
      | Inr samples' \<Rightarrow> get_session (create_ping_samples_body samples' clock) table)"

text \<open>
  \<^verbatim>\<open>ingest-sample FILE\<close>. The file holds one JSON object or an array of them (a file
  that is not JSON of that shape is outside the model); \<open>None\<close> is a missing file. All
  items are validated before the session opens. A row without a timestamp gets the
  column default, the clock's reading at the insertion. The result is the number of
  rows, which the command prints.
\<close>

datatype json_file = JObject "string \<rightharpoonup> json" | JArray "(string \<rightharpoonup> json) list"

definition ingest_sample ::
  "coercions \<Rightarrow> (nat \<Rightarrow> datetime) \<Rightarrow> string \<Rightarrow> json_file option \<Rightarrow> PingSample list
     \<Rightarrow> (error + nat) \<times> PingSample list" where
  "ingest_sample P clock file content table =
     (case content of
        None \<Rightarrow> (Inl (Exit 1 (''File not found: '' @ file)), table)
      | Some data \<Rightarrow>
          (case validate_all P (case data of JObject d \<Rightarrow> [d] | JArray ds \<Rightarrow> ds) of
             Inl e \<Rightarrow> (Inl e, table)
           | Inr samples' \<Rightarrow>
               get_session
                 (\<lambda>t. (Inr (length samples'), t @ records_of (next_id t) clock samples'))
                 table))"


section \<open>Notions used in the statements\<close>





text \<open>Sample data for the examples: a row with the given key, creation time,
  coordinates and signal strength, an altitude of 7 and the hardware model T-Beam.\<close>

definition example_sample ::
  "nat \<Rightarrow> datetime \<Rightarrow> rat option \<Rightarrow> rat option \<Rightarrow> rat option \<Rightarrow> PingSample" where
  "example_sample i t la lo r =
     \<lparr>id_col = i, created_at = t, origin_node_id = ''node-a'', target_node_id = ''node-b'',
      latitude = la, longitude = lo, altitude_m = Some 7, rssi_dbm = r, snr_db = None,
      round_trip_ms = None, hardware_model = Some ''T-Beam'', firmware_version = None,
      antenna_model = None, antenna_gain_dbi = None, antenna_polarization = None,
      tx_power_dbm = None, frequency_mhz = None, channel_id = None, region = None\<rparr>"

text \<open>A clock reading in the year 2022, and a table of seven rows: three at (1, 2) inside
  the last day, one of them without a signal strength; one without a latitude; one at
  (1, 2) from long ago; one at (5, 6) without a signal strength; one at (3, 4).\<close>

definition example_now :: datetime where
  "example_now = 63800000000000000"

definition example_table :: "PingSample list" where
  "example_table =
     [example_sample 1 (example_now - 1000) (Some 1) (Some 2) (Some (- 60)),
      example_sample 2 (example_now - 2000) (Some 1) (Some 2) None,
      example_sample 3 (example_now - 3000) (Some 1) (Some 2) (Some (- 80)),
      example_sample 4 (example_now - 4000) None (Some 2) (Some (- 10)),
      example_sample 5 5 (Some 1) (Some 2) (Some (- 10)),
      example_sample 6 (example_now - 5000) (Some 5) (Some 6) None,
      example_sample 7 (example_now - 6000) (Some 3) (Some 4) (Some (- 50))]"

text \<open>A payload without a latitude, a payload with an empty origin identifier, and the
  settings of a process whose environment sets none of them.\<close>

definition example_payload :: "string \<rightharpoonup> json" where
  "example_payload =
     [''origin_node_id'' \<mapsto> JString ''node-a'', ''target_node_id'' \<mapsto> JString ''node-b'',
      ''longitude'' \<mapsto> JNumber 2, ''rssi_dbm'' \<mapsto> JNumber (- 10)]"

definition example_payload_empty_origin :: "string \<rightharpoonup> json" where
  "example_payload_empty_origin =
     [''origin_node_id'' \<mapsto> JString [], ''target_node_id'' \<mapsto> JString ''node-b'',
      ''latitude'' \<mapsto> JNumber 45, ''longitude'' \<mapsto> JNumber 9]"

definition example_settings :: Settings where
  "example_settings =
     \<lparr>map_tile_url = None, heatmap_min_opacity = 3 / 10, heatmap_radius = 18,
      heatmap_blur = 15, heatmap_max_zoom = 18\<rparr>"

definition example_fs :: filesystem where
  "example_fs = \<lparr>dirs = {[]}, files = Map.empty\<rparr>"

section \<open>Lemmas about the query\<close>

lemma py_min_eq: "py_min (x # xs) = Inr (Min (set (x # xs)))"
proof -
  have "(\<lambda>y m. if y < m then y else m) = (min :: rat \<Rightarrow> rat \<Rightarrow> rat)"
    by (auto simp: min_def fun_eq_iff)
  then show ?thesis using Min.set_eq_fold [of x xs] by simp
qed

lemma py_max_eq: "py_max (x # xs) = Inr (Max (set (x # xs)))"
proof -
  have "(\<lambda>y m. if m < y then y else m) = (max :: rat \<Rightarrow> rat \<Rightarrow> rat)"
    by (auto simp: max_def fun_eq_iff)
  then show ?thesis using Max.set_eq_fold [of x xs] by simp
qed



lemma heatmap_query_Inl:
  "heatmap_query column now hours hw am = Inl e \<longleftrightarrow>
     (\<exists>h. hours = Some h \<and> h \<noteq> 0 \<and> cutoff_of now h = Inl e)"
  by (auto simp: heatmap_query_def Let_def split: option.splits if_splits sum.splits)






lemma non_null_eq: "non_null vs = map the (filter (\<lambda>v. v \<noteq> None) vs)"
  by (induction vs rule: non_null.induct) auto


lemma mset_non_null: "mset vs = mset ws \<Longrightarrow> mset (non_null vs) = mset (non_null ws)"
  by (simp add: non_null_eq)

lemma sql_avg_mset:
  assumes "mset vs = mset ws"
  shows "sql_avg vs = sql_avg ws"
proof -
  have m: "mset (non_null vs) = mset (non_null ws)" using assms by (rule mset_non_null)
  have "sum_list (non_null vs) = sum_list (non_null ws)"
    using m by (metis sum_mset_sum_list)
  moreover have "length (non_null vs) = length (non_null ws)"
    using m by (metis size_mset)
  moreover have "non_null vs = [] \<longleftrightarrow> non_null ws = []"
    using m by (metis mset_zero_iff)
  ultimately show ?thesis by (simp add: sql_avg_def Let_def)
qed

lemma sql_count_mset: "mset vs = mset ws \<Longrightarrow> sql_count vs = sql_count ws"
  unfolding sql_count_def by (metis mset_non_null size_mset)

lemma sql_max_eq:
  "sql_max vs = (if non_null vs = [] then None else Some (Max (set (non_null vs))))"
  unfolding sql_max_def by (auto split: list.splits simp: Max.set_eq_fold [symmetric])

lemma sql_max_mset:
  assumes "mset vs = mset ws"
  shows "sql_max vs = sql_max ws"
proof -
  have m: "mset (non_null vs) = mset (non_null ws)" using assms by (rule mset_non_null)
  have "set (non_null vs) = set (non_null ws)" using m by (rule mset_eq_setD)
  moreover have "non_null vs = [] \<longleftrightarrow> non_null ws = []"
    using m by (metis mset_zero_iff)
  ultimately show ?thesis by (simp add: sql_max_eq)
qed

lemma aggregate_row_mset:
  "mset g = mset g' \<Longrightarrow> aggregate_row column k g = aggregate_row column k g'"
  unfolding aggregate_row_def
  by (simp add: sql_avg_mset [of "map f g" "map f g'" for f]
      sql_count_mset [of "map f g" "map f g'" for f] sql_max_mset [of "map f g" "map f g'" for f])

lemma execute_mset:
  assumes "mset table = mset table'"
  shows "execute q table = execute q table'"
proof -
  let ?sel = "selected_rows q table" and ?sel' = "selected_rows q table'"
  have m: "mset ?sel = mset ?sel'"
    using assms by (simp add: selected_rows_def)
  have "set (map group_key ?sel) = set (map group_key ?sel')"
    using m by (metis mset_eq_setD mset_map)
  then have k: "sort (remdups (map group_key ?sel)) = sort (remdups (map group_key ?sel'))"
    by (metis sorted_list_of_set_sort_remdups)
  have "mset (filter (\<lambda>s. group_key s = k) ?sel) = mset (filter (\<lambda>s. group_key s = k) ?sel')" for k
    using m by simp
  then have "aggregate_row (metric_column q) k (filter (\<lambda>s. group_key s = k) ?sel) =
      aggregate_row (metric_column q) k (filter (\<lambda>s. group_key s = k) ?sel')" for k
    by (rule aggregate_row_mset)
  with k show ?thesis by (simp add: execute_def Let_def)
qed

lemma get_heatmap_mset:
  "mset table = mset table' \<Longrightarrow>
     get_heatmap inh now table m h hw am = get_heatmap inh now table' m h hw am"
  by (simp add: get_heatmap_def get_heatmap_body_def execute_mset [of table table'] Let_def
      cong: option.case_cong attr.case_cong sum.case_cong if_cong)





lemma py_min_nonempty: "xs \<noteq> [] \<Longrightarrow> py_min xs = Inr (Min (set xs))"
  by (cases xs) (simp_all only: py_min_eq list.simps not_False_eq_True)

lemma py_max_nonempty: "xs \<noteq> [] \<Longrightarrow> py_max xs = Inr (Max (set xs))"
  by (cases xs) (simp_all only: py_max_eq list.simps not_False_eq_True)



lemma get_heatmap_Inr:
  assumes "get_heatmap inh now table mp hours hw am = Inr resp"
  shows "\<exists>column q.
     map_of numeric_columns (case mp of None \<Rightarrow> ''rssi_dbm'' | Some m \<Rightarrow> m) = Some column \<and>
     heatmap_query column now hours hw am = Inr q \<and>
     metric resp = (case mp of None \<Rightarrow> ''rssi_dbm'' | Some m \<Rightarrow> m) \<and>
     points resp = build_heatmap_points (execute q table) (metric resp) \<and>
     min_value resp =
       (if points resp = [] then None else Some (Min (set (map intensity (points resp))))) \<and>
     max_value resp =
       (if points resp = [] then None else Some (Max (set (map intensity (points resp)))))"
  using assms
  by (auto simp: get_heatmap_def get_heatmap_body_def PingSample_getattr_def Let_def
      py_min_nonempty py_max_nonempty
      split: if_splits option.splits attr.splits sum.splits)

lemmas heatmap_eval_defs =
  get_heatmap_def supported_metrics_def get_heatmap_body_def PingSample_getattr_def
  numeric_columns_def other_class_attributes_def heatmap_query_def select_heatmap_def where_q_def
  cutoff_of_def timedelta_hours_def datetime_sub_def datetime_max_def
  execute_def selected_rows_def group_key_def aggregate_row_def sql_avg_def sql_count_def
  sql_max_def Let_def example_table_def example_sample_def example_now_def

lemma example_heatmap:
  "get_heatmap (\<lambda>_. False) example_now example_table (Some ''rssi_dbm'') (Some 24) None None =
     Inr \<lparr>metric = ''rssi_dbm'',
          points =
            [\<lparr>HeatmapPoint.latitude = 1, longitude = 2, intensity = - 70, samples = 3,
              latest_seen = Some (example_now - 1000), antenna_gain_dbi = None,
              tx_power_dbm = None, hardware_model = Some ''T-Beam''\<rparr>,
             \<lparr>HeatmapPoint.latitude = 3, longitude = 4, intensity = - 50, samples = 1,
              latest_seen = Some (example_now - 6000), antenna_gain_dbi = None,
              tx_power_dbm = None, hardware_model = Some ''T-Beam''\<rparr>],
          min_value = Some (- 70), max_value = Some (- 50)\<rparr>"
  by (simp add: heatmap_eval_defs)








lemma validate_all_append:
  "validate_all P (ds1 @ ds2) =
     (case validate_all P ds1 of
        Inl e \<Rightarrow> Inl e
      | Inr s1 \<Rightarrow> (case validate_all P ds2 of Inl e \<Rightarrow> Inl e | Inr s2 \<Rightarrow> Inr (s1 @ s2)))"
  by (induction ds1) (auto split: sum.splits)






section \<open>The claims\<close>

subsection \<open>The worked example\<close>

lemma heatmap_example_list:
  assumes "PingSample.latitude s1 = Some 1" "PingSample.longitude s1 = Some 2" "rssi_dbm s1 = Some (- 60)"
    and "PingSample.latitude s2 = Some 1" "PingSample.longitude s2 = Some 2" "rssi_dbm s2 = Some (- 70)"
    and "PingSample.latitude s3 = Some 1" "PingSample.longitude s3 = Some 2" "rssi_dbm s3 = Some (- 80)"
    and "PingSample.latitude s4 = Some 3" "PingSample.longitude s4 = Some 4" "rssi_dbm s4 = Some (- 50)"
  shows "\<exists>resp. get_heatmap inh now [s1, s2, s3, s4] (Some ''rssi_dbm'') None None None = Inr resp \<and>
     metric resp = ''rssi_dbm'' \<and>
     map (\<lambda>p. (HeatmapPoint.latitude p, HeatmapPoint.longitude p, intensity p, samples p)) (points resp)
       = [(1, 2, - 70, 3), (3, 4, - 50, 1)] \<and>
     min_value resp = Some (- 70) \<and> max_value resp = Some (- 50)"
  using assms
  by (simp add: get_heatmap_def supported_metrics_def get_heatmap_body_def PingSample_getattr_def
      numeric_columns_def heatmap_query_def select_heatmap_def execute_def selected_rows_def
      group_key_def aggregate_row_def sql_avg_def sql_count_def sql_max_def Let_def)

text \<open>
  Claim C1. A table that holds exactly three samples at (1, 2) with signal strengths
  -60, -70 and -80 and one sample at (3, 4) with signal strength -50, in any order and
  whatever their other fields: the heatmap of \<^verbatim>\<open>rssi_dbm\<close> without filters has exactly
  two points, (1, 2) with intensity -70 over 3 samples and (3, 4) with intensity -50 over
  1 sample, and the envelope's least and greatest values are -70 and -50.
\<close>

theorem heatmap_example:
  assumes "mset table = {#s1, s2, s3, s4#}"
    and "PingSample.latitude s1 = Some 1" "PingSample.longitude s1 = Some 2" "rssi_dbm s1 = Some (- 60)"
    and "PingSample.latitude s2 = Some 1" "PingSample.longitude s2 = Some 2" "rssi_dbm s2 = Some (- 70)"
    and "PingSample.latitude s3 = Some 1" "PingSample.longitude s3 = Some 2" "rssi_dbm s3 = Some (- 80)"
    and "PingSample.latitude s4 = Some 3" "PingSample.longitude s4 = Some 4" "rssi_dbm s4 = Some (- 50)"
  shows "\<exists>resp. get_heatmap inh now table (Some ''rssi_dbm'') None None None = Inr resp \<and>
     metric resp = ''rssi_dbm'' \<and>
     mset (map (\<lambda>p. (HeatmapPoint.latitude p, HeatmapPoint.longitude p, intensity p, samples p))
             (points resp))
       = {#(1, 2, - 70, 3), (3, 4, - 50, 1)#} \<and>
     min_value resp = Some (- 70) \<and> max_value resp = Some (- 50)"
proof -
  have "mset table = mset [s1, s2, s3, s4]" using assms(1) by simp
  then have e: "get_heatmap inh now table (Some ''rssi_dbm'') None None None =
      get_heatmap inh now [s1, s2, s3, s4] (Some ''rssi_dbm'') None None None"
    by (rule get_heatmap_mset)
  from heatmap_example_list [OF assms(2-), of inh now] obtain resp where
    r: "get_heatmap inh now [s1, s2, s3, s4] (Some ''rssi_dbm'') None None None = Inr resp \<and>
     metric resp = ''rssi_dbm'' \<and>
     map (\<lambda>p. (HeatmapPoint.latitude p, HeatmapPoint.longitude p, intensity p, samples p)) (points resp)
       = [(1, 2, - 70, 3), (3, 4, - 50, 1)] \<and>
     min_value resp = Some (- 70) \<and> max_value resp = Some (- 50)" ..
  then have "mset (map (\<lambda>p. (HeatmapPoint.latitude p, HeatmapPoint.longitude p, intensity p, samples p))
      (points resp)) = mset [(1, 2, - 70, 3), (3, 4, - 50, 1)]"
    by (simp only:)
  with r e show ?thesis
    by (intro exI [of _ resp]) simp
qed

theorem heatmap_example_witness:
  "\<exists>resp. get_heatmap (\<lambda>_. False) 63800000000000000
      [example_sample 1 5 (Some 3) (Some 4) (Some (- 50)), example_sample 2 6 (Some 1) (Some 2) (Some (- 80)),
       example_sample 3 7 (Some 1) (Some 2) (Some (- 60)), example_sample 4 8 (Some 1) (Some 2) (Some (- 70))]
      (Some ''rssi_dbm'') None None None = Inr resp \<and>
     metric resp = ''rssi_dbm'' \<and>
     mset (map (\<lambda>p. (HeatmapPoint.latitude p, HeatmapPoint.longitude p, intensity p, samples p))
             (points resp))
       = {#(1, 2, - 70, 3), (3, 4, - 50, 1)#} \<and>
     min_value resp = Some (- 70) \<and> max_value resp = Some (- 50)"
  by (rule heatmap_example [of _ "example_sample 3 7 (Some 1) (Some 2) (Some (- 60))" "example_sample 4 8 (Some 1) (Some 2) (Some (- 70))"
        "example_sample 2 6 (Some 1) (Some 2) (Some (- 80))" "example_sample 1 5 (Some 3) (Some 4) (Some (- 50))"])
     (simp_all add: example_sample_def)


subsection \<open>Mean and count of a group\<close>


subsection \<open>The envelope\<close>

text \<open>
  Claim C9. In any answered heatmap request, either the point list is empty and
  \<open>min_value\<close> and \<open>max_value\<close> are both null, or the point list is not empty,
  \<open>min_value\<close> is the least and \<open>max_value\<close> the greatest intensity of the returned
  points, and every point's intensity lies between them.
\<close>

theorem envelope_min_max:
  assumes "get_heatmap inherited now table metric_param hours hw am = Inr resp"
  shows "(points resp = [] \<and> min_value resp = None \<and> max_value resp = None) \<or>
     (points resp \<noteq> [] \<and>
      (\<exists>lo hi. min_value resp = Some lo \<and> max_value resp = Some hi \<and>
         lo = Min (intensity ` set (points resp)) \<and>
         hi = Max (intensity ` set (points resp)) \<and>
         (\<forall>p \<in> set (points resp). lo \<le> intensity p \<and> intensity p \<le> hi)))"
proof -
  from get_heatmap_Inr [OF assms] have
    mn: "min_value resp =
       (if points resp = [] then None else Some (Min (set (map intensity (points resp)))))"
    and mx: "max_value resp =
       (if points resp = [] then None else Some (Max (set (map intensity (points resp)))))"
    by auto
  show ?thesis
  proof (cases "points resp = []")
    case True
    with mn mx show ?thesis by simp
  next
    case False
    then have "finite (intensity ` set (points resp))" "intensity ` set (points resp) \<noteq> {}"
      by simp_all
    with False mn mx show ?thesis by (auto intro: Min_le Max_ge)
  qed
qed



theorem envelope_min_max_witness:
  "\<exists>resp.
     get_heatmap (\<lambda>_. False) example_now example_table (Some ''rssi_dbm'') (Some 24) None None
       = Inr resp \<and>
     points resp \<noteq> [] \<and>
     min_value resp = Some (Min (intensity ` set (points resp))) \<and>
     max_value resp = Some (Max (intensity ` set (points resp))) \<and>
     min_value resp = Some (- 70) \<and> max_value resp = Some (- 50)"
  using envelope_min_max [OF example_heatmap] example_heatmap by auto

subsection \<open>Samples without coordinates\<close>









subsection \<open>Bulk ingestion of an empty list\<close>

text \<open>
  Claim C8. The bulk endpoint, given an empty list, answers with the HTTP error 400
  "No samples provided." (the spec's EmptyInput) and the table is what it was: the check
  comes before anything is added to the session. The first equation is the endpoint
  with its validation and its session, the second the function body alone.
\<close>

theorem bulk_empty_rejected:
  "create_ping_samples P clock [] table = (Inl (HTTPException 400 ''No samples provided.''), table) \<and>
   create_ping_samples_body [] clock table = (Inl (HTTPException 400 ''No samples provided.''), table)"
  by (simp add: create_ping_samples_def create_ping_samples_body_def get_session_def)

subsection \<open>What validation accepts\<close>

lemma bind_eq_Some_E:
  "Option.bind m f = Some y \<Longrightarrow> (\<And>x. m = Some x \<Longrightarrow> f x = Some y \<Longrightarrow> R) \<Longrightarrow> R"
  by (cases m) auto

lemma PingSampleIn_fields_Some:
  assumes "PingSampleIn_fields P d = Some s"
  shows "required (as_str P) d ''origin_node_id'' = Some (PingSampleIn.origin_node_id s)"
    and "required (as_str P) d ''target_node_id'' = Some (PingSampleIn.target_node_id s)"
    and "Option.bind (optional (as_float P) d ''latitude'') (ge_le (- 90) 90) = Some (PingSampleIn.latitude s)"
    and "Option.bind (optional (as_float P) d ''longitude'') (ge_le (- 180) 180) = Some (PingSampleIn.longitude s)"
  using assms unfolding PingSampleIn_fields_def
  by (auto elim!: bind_eq_Some_E)


lemma validate_all_reject:
  "PingSampleIn_validate P d = Inl e \<Longrightarrow> \<exists>e'. validate_all P (ds1 @ d # ds2) = Inl e'"
  by (simp add: validate_all_append split: sum.splits)

lemma PingSampleIn_validate_Inl: "PingSampleIn_validate P d = Inl e \<Longrightarrow> e = ValidationError"
  by (auto simp: PingSampleIn_validate_def split: option.splits)

lemma validate_all_Inl: "validate_all P ds = Inl e \<Longrightarrow> e = ValidationError"
  by (induction ds) (auto split: sum.splits dest: PingSampleIn_validate_Inl)

lemma PingSampleIn_fields_reject:
  assumes "d ''origin_node_id'' = None \<or> d ''target_node_id'' = None \<or>
      (\<exists>j x. d ''latitude'' = Some j \<and> j \<noteq> JNull \<and> as_float P j = Some x \<and> (x < - 90 \<or> 90 < x)) \<or>
      (\<exists>j x. d ''longitude'' = Some j \<and> j \<noteq> JNull \<and> as_float P j = Some x \<and> (x < - 180 \<or> 180 < x))"
  shows "PingSampleIn_fields P d = None"
proof (rule ccontr)
  assume "PingSampleIn_fields P d \<noteq> None"
  then obtain s where s: "PingSampleIn_fields P d = Some s" by auto
  from assms PingSampleIn_fields_Some [OF s] show False
    by (auto simp: required_def optional_def ge_le_def split: json.splits if_splits)
qed

text \<open>
  Claim C7, as the code has it. A payload that validation accepts has both node
  identifiers present, and the sample carries them as converted (nothing asks for a
  non-empty string); its latitude, when present, lies in [-90, 90] and its longitude,
  when present, in [-180, 180]. A payload that lacks an identifier, or whose latitude
  or longitude converts to a number outside these bounds, is rejected by validation, and
  each ingestion path then fails and leaves the table as it was.
\<close>

theorem accepted_sample_invariants:
  "(PingSampleIn_validate P d = Inr s \<longrightarrow>
      (\<exists>j. d ''origin_node_id'' = Some j \<and> as_str P j = Some (PingSampleIn.origin_node_id s)) \<and>
      (\<exists>j. d ''target_node_id'' = Some j \<and> as_str P j = Some (PingSampleIn.target_node_id s)) \<and>
      (\<forall>la. PingSampleIn.latitude s = Some la \<longrightarrow> - 90 \<le> la \<and> la \<le> 90) \<and>
      (\<forall>lo. PingSampleIn.longitude s = Some lo \<longrightarrow> - 180 \<le> lo \<and> lo \<le> 180)) \<and>
   (d ''origin_node_id'' = None \<or> d ''target_node_id'' = None \<or>
      (\<exists>j x. d ''latitude'' = Some j \<and> j \<noteq> JNull \<and> as_float P j = Some x \<and> (x < - 90 \<or> 90 < x)) \<or>
      (\<exists>j x. d ''longitude'' = Some j \<and> j \<noteq> JNull \<and> as_float P j = Some x \<and> (x < - 180 \<or> 180 < x))
    \<longrightarrow>
      PingSampleIn_validate P d = Inl ValidationError \<and>
      create_ping_sample P t d table = (Inl RequestValidationError, table) \<and>
      create_ping_samples P clock (ds1 @ d # ds2) table = (Inl RequestValidationError, table) \<and>
      ingest_sample P clock file (Some (JArray (ds1 @ d # ds2))) table = (Inl ValidationError, table))"
proof (intro conjI impI)
  assume "PingSampleIn_validate P d = Inr s"
  then have s: "PingSampleIn_fields P d = Some s"
    by (auto simp: PingSampleIn_validate_def split: option.splits)
  note f = PingSampleIn_fields_Some [OF s]
  from f(1) show "\<exists>j. d ''origin_node_id'' = Some j \<and> as_str P j = Some (PingSampleIn.origin_node_id s)"
    by (auto simp: required_def split: option.splits)
  from f(2) show "\<exists>j. d ''target_node_id'' = Some j \<and> as_str P j = Some (PingSampleIn.target_node_id s)"
    by (auto simp: required_def split: option.splits)
  from f(3) show "\<forall>la. PingSampleIn.latitude s = Some la \<longrightarrow> - 90 \<le> la \<and> la \<le> 90"
    by (auto simp: ge_le_def elim!: bind_eq_Some_E split: option.splits if_splits)
  from f(4) show "\<forall>lo. PingSampleIn.longitude s = Some lo \<longrightarrow> - 180 \<le> lo \<and> lo \<le> 180"
    by (auto simp: ge_le_def elim!: bind_eq_Some_E split: option.splits if_splits)
next
  assume a: "d ''origin_node_id'' = None \<or> d ''target_node_id'' = None \<or>
      (\<exists>j x. d ''latitude'' = Some j \<and> j \<noteq> JNull \<and> as_float P j = Some x \<and> (x < - 90 \<or> 90 < x)) \<or>
      (\<exists>j x. d ''longitude'' = Some j \<and> j \<noteq> JNull \<and> as_float P j = Some x \<and> (x < - 180 \<or> 180 < x))"
  have v: "PingSampleIn_validate P d = Inl ValidationError"
    by (simp add: PingSampleIn_validate_def PingSampleIn_fields_reject [OF a])
  from validate_all_reject [OF v] obtain e' where "validate_all P (ds1 @ d # ds2) = Inl e'" ..
  with validate_all_Inl [OF this] have va: "validate_all P (ds1 @ d # ds2) = Inl ValidationError"
    by simp
  show "PingSampleIn_validate P d = Inl ValidationError" by (rule v)
  show "create_ping_sample P t d table = (Inl RequestValidationError, table)"
    by (simp add: create_ping_sample_def v)
  show "create_ping_samples P clock (ds1 @ d # ds2) table = (Inl RequestValidationError, table)"
    by (simp add: create_ping_samples_def va)
  show "ingest_sample P clock file (Some (JArray (ds1 @ d # ds2))) table = (Inl ValidationError, table)"
    by (simp add: ingest_sample_def va)
qed

lemmas validate_eval_defs =
  PingSampleIn_validate_def PingSampleIn_fields_def required_def optional_def ge_le_def
  json_coercions_def

theorem empty_origin_accepted:
  "map_sum (\<lambda>e. e) PingSampleIn.origin_node_id
       (PingSampleIn_validate json_coercions example_payload_empty_origin) = Inr [] \<and>
   map_sum (\<lambda>e. e) PingSample.origin_node_id
       (fst (create_ping_sample json_coercions example_now example_payload_empty_origin [])) = Inr [] \<and>
   map PingSample.origin_node_id
       (snd (create_ping_sample json_coercions example_now example_payload_empty_origin [])) = [[]]"
  by (simp add: validate_eval_defs example_payload_empty_origin_def create_ping_sample_def
      get_session_def create_ping_sample_body_def PingSample_of_def Let_def)

theorem accepted_sample_invariants_witness:
  "(\<exists>s. PingSampleIn_validate json_coercions example_payload_empty_origin = Inr s \<and>
        PingSampleIn.origin_node_id s = [] \<and> PingSampleIn.target_node_id s = ''node-b'' \<and>
        PingSampleIn.latitude s = Some 45 \<and> PingSampleIn.longitude s = Some 9) \<and>
   (- 90 :: rat) \<le> 45 \<and> (45 :: rat) \<le> 90 \<and> (- 180 :: rat) \<le> 9 \<and> (9 :: rat) \<le> 180 \<and>
   (example_payload(''latitude'' \<mapsto> JNumber 91)) ''latitude'' = Some (JNumber 91) \<and>
   as_float json_coercions (JNumber 91) = Some 91 \<and> (90 :: rat) < 91 \<and>
   PingSampleIn_validate json_coercions (example_payload(''latitude'' \<mapsto> JNumber 91))
     = Inl ValidationError \<and>
   create_ping_sample json_coercions example_now (example_payload(''latitude'' \<mapsto> JNumber 91))
     example_table = (Inl RequestValidationError, example_table)"
proof -
  let ?s = "\<lparr>PingSampleIn.origin_node_id = [], target_node_id = ''node-b'', timestamp = None,
          latitude = Some 45, longitude = Some 9, altitude_m = None, rssi_dbm = None,
          snr_db = None, round_trip_ms = None, hardware_model = None, firmware_version = None,
          antenna_model = None, antenna_gain_dbi = None, antenna_polarization = None,
          tx_power_dbm = None, frequency_mhz = None, channel_id = None, region = None\<rparr>"
  let ?d = "example_payload(''latitude'' \<mapsto> JNumber 91)"
  have v: "PingSampleIn_validate json_coercions example_payload_empty_origin = Inr ?s"
    by (simp add: validate_eval_defs example_payload_empty_origin_def)
  have h: "?d ''origin_node_id'' = None \<or> ?d ''target_node_id'' = None \<or>
      (\<exists>j x. ?d ''latitude'' = Some j \<and> j \<noteq> JNull \<and> as_float json_coercions j = Some x \<and>
         (x < - 90 \<or> 90 < x)) \<or>
      (\<exists>j x. ?d ''longitude'' = Some j \<and> j \<noteq> JNull \<and> as_float json_coercions j = Some x \<and>
         (x < - 180 \<or> 180 < x))"
    by (simp add: json_coercions_def)
  note a = accepted_sample_invariants [of json_coercions example_payload_empty_origin ?s,
      THEN conjunct1, rule_format, OF v]
  note r = accepted_sample_invariants [of json_coercions ?d _ example_now example_table,
      THEN conjunct2, rule_format, OF h]
  from a have b: "(- 90 :: rat) \<le> 45 \<and> (45 :: rat) \<le> 90 \<and> (- 180 :: rat) \<le> 9 \<and> (9 :: rat) \<le> 180"
    by simp
  from r have r1: "PingSampleIn_validate json_coercions ?d = Inl ValidationError"
    and r2: "create_ping_sample json_coercions example_now ?d example_table =
      (Inl RequestValidationError, example_table)"
    by simp_all
  show ?thesis
    using v b r1 r2 by (simp add: json_coercions_def)
qed

subsection \<open>An empty result\<close>





subsection \<open>Falsy filters\<close>

lemma heatmap_query_falsy:
  "heatmap_query column now (Some 0) hw am = heatmap_query column now None hw am"
  "heatmap_query column now h (Some []) am = heatmap_query column now h None am"
  "heatmap_query column now h hw (Some []) = heatmap_query column now h hw None"
  by (simp_all add: heatmap_query_def Let_def cong: sum.case_cong option.case_cong)

lemmas case_congs = option.case_cong attr.case_cong sum.case_cong if_cong

text \<open>
  Claim C10, as the code has it. The command-line export treats \<^verbatim>\<open>--hours 0\<close> as if
  the option were absent. Both the export and the HTTP query treat an empty
  \<^verbatim>\<open>hardware_model\<close> or \<^verbatim>\<open>antenna_model\<close> as if it were absent: no predicate is added
  for it. The HTTP query does not treat \<^verbatim>\<open>hours=0\<close> so: its validation rejects it.
\<close>

theorem falsy_filters_are_omitted:
  "export_heatmap inherited settings now table fs output m (Some 0) hw am =
     export_heatmap inherited settings now table fs output m None hw am \<and>
   export_heatmap inherited settings now table fs output m h (Some []) am =
     export_heatmap inherited settings now table fs output m h None am \<and>
   export_heatmap inherited settings now table fs output m h hw (Some []) =
     export_heatmap inherited settings now table fs output m h hw None \<and>
   get_heatmap inherited now table m h (Some []) am = get_heatmap inherited now table m h None am \<and>
   get_heatmap inherited now table m h hw (Some []) = get_heatmap inherited now table m h hw None \<and>
   get_heatmap inherited now table m (Some 0) hw am = Inl RequestValidationError"
  by (simp add: export_heatmap_def get_heatmap_def get_heatmap_body_def heatmap_query_falsy Let_def
      cong: case_congs)

theorem http_hours_zero_rejected:
  "get_heatmap (\<lambda>_. False) example_now example_table (Some ''rssi_dbm'') (Some 0) None None =
     Inl RequestValidationError \<and>
   get_heatmap (\<lambda>_. False) example_now example_table (Some ''rssi_dbm'') None None None =
     Inr \<lparr>metric = ''rssi_dbm'',
          points =
            [\<lparr>HeatmapPoint.latitude = 1, longitude = 2, intensity = - 50, samples = 4,
              latest_seen = Some (example_now - 1000), antenna_gain_dbi = None,
              tx_power_dbm = None, hardware_model = Some ''T-Beam''\<rparr>,
             \<lparr>HeatmapPoint.latitude = 3, longitude = 4, intensity = - 50, samples = 1,
              latest_seen = Some (example_now - 6000), antenna_gain_dbi = None,
              tx_power_dbm = None, hardware_model = Some ''T-Beam''\<rparr>],
          min_value = Some (- 50), max_value = Some (- 50)\<rparr>"
  by (simp add: heatmap_eval_defs)

subsection \<open>Validation of the metric and of the window\<close>

lemma get_heatmap_unsupported_metric:
  "m \<notin> set supported_metrics \<Longrightarrow>
     get_heatmap inherited now table (Some m) hours hw am = Inl RequestValidationError"
  by (simp add: get_heatmap_def)

lemma get_heatmap_supported_getattr:
  "m \<in> set supported_metrics \<Longrightarrow> \<exists>column. PingSample_getattr inherited m = Some (Numeric column)"
  by (auto simp: supported_metrics_def PingSample_getattr_def numeric_columns_def)

lemmas export_eval_defs =
  export_heatmap_def render_heatmap_html_def mkdir_parents_def save_def
  example_settings_def example_fs_def

text \<open>
  Claim C2 at a failing input. The name \<^verbatim>\<open>id\<close> is not one of the three supported
  metrics. The HTTP query rejects it in validation. The command-line export does not:
  \<^verbatim>\<open>getattr\<close> finds the primary-key column of that name, the aggregation averages the
  keys of each group, and the heatmap is written.
\<close>

theorem export_heatmap_accepts_id:
  "''id'' \<notin> set supported_metrics \<and>
   get_heatmap (\<lambda>_. False) example_now example_table (Some ''id'') None None None =
     Inl RequestValidationError \<and>
   fst (export_heatmap (\<lambda>_. False) example_settings example_now example_table example_fs
          [''out'', ''map.html''] (Some ''id'') None None None) = Inr [''out'', ''map.html''] \<and>
   map_option heat_data
     (files (snd (export_heatmap (\<lambda>_. False) example_settings example_now example_table example_fs
          [''out'', ''map.html''] (Some ''id'') None None None)) [''out'', ''map.html'']) =
     Some [(1, 2, 11 / 4), (3, 4, 7), (5, 6, 6)]"
  by (simp add: heatmap_eval_defs export_eval_defs)





end
